theory Spec2Isabelle
  imports Main
begin

section \<open>JavaScript values used by the client\<close>

text \<open>
  A JavaScript number is modelled as an integer or \<open>NaN\<close>. The numbers the client handles
  (status codes, retry counts, delays in milliseconds, the result of \<open>parseInt\<close>) are
  integers; fractions and infinities are outside the model, and integer arithmetic is exact
  (for doubles that is so below \<open>2^53\<close>). \<open>-0\<close> is identified with \<open>0\<close>: both are falsy and
  equal under \<open>===\<close>.
\<close>

datatype jsnumber = Num int | NaN

fun js_times :: "jsnumber \<Rightarrow> jsnumber \<Rightarrow> jsnumber" where
  "js_times (Num a) (Num b) = Num (a * b)"
| "js_times _ _ = NaN"

text \<open>
  A parsed response body: what axios hands over in \<open>response.data\<close> (a JSON value, or the
  raw text as a string when the body is not JSON; the empty string when there is no body).
  An object is the list of its own properties, keys distinct, as \<open>JSON.parse\<close> builds it.
\<close>

datatype json =
    JNull
  | JBool bool
  | JNum int
  | JStr string
  | JArr "json list"
  | JObj "(string \<times> json) list"

text \<open>Truthiness, as the operator \<open>||\<close> tests it.\<close>

fun truthy :: "json \<Rightarrow> bool" where
  "truthy JNull = False"
| "truthy (JBool b) = b"
| "truthy (JNum n) = (n \<noteq> 0)"
| "truthy (JStr s) = (s \<noteq> [])"
| "truthy (JArr _) = True"
| "truthy (JObj _) = True"

text \<open>
  \<open>(data as any)?.message\<close>: \<open>None\<close> is \<open>undefined\<close>. Only an object can own a property
  \<open>message\<close>; \<open>null\<close> short-circuits, and strings, numbers, booleans and arrays have no
  such property on their prototypes.
\<close>

fun get_message :: "json \<Rightarrow> json option" where
  "get_message (JObj props) = map_of props ''message''"
| "get_message _ = None"

subsection \<open>Template literals: a status code in decimal\<close>

definition digit_char :: "nat \<Rightarrow> char" where
  "digit_char d = ''0123456789'' ! d"

fun show_nat :: "nat \<Rightarrow> string" where
  "show_nat n = (if n < 10 then [digit_char n] else show_nat (n div 10) @ [digit_char (n mod 10)])"

declare show_nat.simps [simp del]

text \<open>A number in a template literal or a string conversion (integers only).\<close>

definition show_int :: "int \<Rightarrow> string" where
  "show_int n = (if n < 0 then CHR ''-'' # show_nat (nat (- n)) else show_nat (nat n))"

subsection \<open>Conversion to a string\<close>

text \<open>
  \<open>ToString\<close> of ECMA-262 on a parsed JSON value, which is what \<open>new Error(message)\<close>
  applies to its argument. A string is itself; a number and a boolean are printed; an
  array is the conversions of its elements joined by commas, with nothing for a \<open>null\<close>
  element; an object is \<open>[object Object]\<close>, through \<open>Object.prototype.toString\<close>. An
  object that has a property \<open>toString\<close> of its own hides that method with a JSON value,
  which cannot be called, and the inherited \<open>valueOf\<close> returns the object itself: the
  conversion throws a \<open>TypeError\<close>. A number is printed in plain decimal, which is what
  JavaScript prints for an integer of magnitude below \<open>2^53\<close> (\<open>safe_numbers\<close>).
\<close>

datatype js_exception = TypeError

fun js_to_string :: "json \<Rightarrow> js_exception + string"
  and join_elements :: "json list \<Rightarrow> js_exception + string"
where
  "js_to_string JNull = Inr ''null''"
| "js_to_string (JBool b) = Inr (if b then ''true'' else ''false'')"
| "js_to_string (JNum n) = Inr (show_int n)"
| "js_to_string (JStr s) = Inr s"
| "js_to_string (JArr xs) = join_elements xs"
| "js_to_string (JObj props) =
     (case map_of props ''toString'' of
        None \<Rightarrow> Inr ''[object Object]''
      | Some _ \<Rightarrow> Inl TypeError)"
| "join_elements [] = Inr []"
| "join_elements (x # xs) =
     (case (case x of JNull \<Rightarrow> Inr [] | _ \<Rightarrow> js_to_string x) of
        Inl exn \<Rightarrow> Inl exn
      | Inr s \<Rightarrow>
          if xs = [] then Inr s
          else (case join_elements xs of
                  Inl exn \<Rightarrow> Inl exn
                | Inr rest \<Rightarrow> Inr (s @ '','' @ rest)))"

fun safe_numbers :: "json \<Rightarrow> bool"
  and safe_elements :: "json list \<Rightarrow> bool"
where
  "safe_numbers (JNum n) = (\<bar>n\<bar> < 2 ^ 53)"
| "safe_numbers (JArr xs) = safe_elements xs"
| "safe_numbers JNull = True"
| "safe_numbers (JBool _) = True"
| "safe_numbers (JStr _) = True"
| "safe_numbers (JObj _) = True"
| "safe_elements [] = True"
| "safe_elements (x # xs) = (safe_numbers x \<and> safe_elements xs)"

subsection \<open>parseInt\<close>

text \<open>
  \<open>parseInt(s)\<close> without a radix, after ECMA-262: skip leading white space, read an optional
  sign, strip a \<open>0x\<close>/\<open>0X\<close> prefix (the radix is then 16, else 10), read the longest prefix of
  digits of that radix; no digit at all gives \<open>NaN\<close>. A header value holds one character
  per byte, and the white space among those is TAB, LF, VT, FF, CR, SP and NBSP.
\<close>

definition is_white_space :: "char \<Rightarrow> bool" where
  "is_white_space c \<longleftrightarrow> of_char c \<in> {9, 10, 11, 12, 13, 32, 160 :: nat}"

definition digit_value :: "char \<Rightarrow> nat option" where
  "digit_value c =
     (let n = of_char c :: nat in
      if 48 \<le> n \<and> n \<le> 57 then Some (n - 48)
      else if 97 \<le> n \<and> n \<le> 122 then Some (n - 87)
      else if 65 \<le> n \<and> n \<le> 90 then Some (n - 55)
      else None)"

definition is_digit :: "nat \<Rightarrow> char \<Rightarrow> bool" where
  "is_digit radix c = (case digit_value c of None \<Rightarrow> False | Some d \<Rightarrow> d < radix)"

fun digits_value :: "nat \<Rightarrow> nat \<Rightarrow> string \<Rightarrow> nat" where
  "digits_value radix acc [] = acc"
| "digits_value radix acc (c # cs) =
     digits_value radix (acc * radix + (case digit_value c of None \<Rightarrow> 0 | Some d \<Rightarrow> d)) cs"

fun strip_sign :: "string \<Rightarrow> bool \<times> string" where
  "strip_sign (c # cs) =
     (if c = CHR ''-'' then (True, cs) else if c = CHR ''+'' then (False, cs) else (False, c # cs))"
| "strip_sign [] = (False, [])"

fun strip_prefix :: "string \<Rightarrow> nat \<times> string" where
  "strip_prefix (a # b # cs) =
     (if a = CHR ''0'' \<and> (b = CHR ''x'' \<or> b = CHR ''X'') then (16, cs) else (10, a # b # cs))"
| "strip_prefix cs = (10, cs)"

definition parseInt :: "string \<Rightarrow> jsnumber" where
  "parseInt s =
     (let (neg, s1) = strip_sign (dropWhile is_white_space s);
          (radix, s2) = strip_prefix s1;
          z = takeWhile (is_digit radix) s2
      in if z = [] then NaN
         else Num ((if neg then - 1 else 1) * int (digits_value radix 0 z)))"

section \<open>The error taxonomy (src/types/index.ts)\<close>

text \<open>
  The error classes. \<open>kind\<close> is the class of the object, which \<open>instanceof\<close> tests and
  which fixes its \<open>name\<close>; no class below has a subclass of its own, so
  \<open>e instanceof RateLimitError\<close> is \<open>kind e = RateLimitError\<close>.
\<close>

datatype error_kind =
    BondMCPError
  | AuthenticationError
  | AuthorizationError
  | NotFoundError
  | ValidationError
  | RateLimitError
  | ServerError
  | NetworkError
  | TimeoutError
  | ConfigurationError

text \<open>
  The fields an error object carries. An optional constructor argument that is left out
  is \<open>None\<close>.
\<close>

record bond_error =
  kind :: error_kind
  message :: string
  statusCode :: "nat option"
  responseData :: "json option"
  retryAfter :: "jsnumber option"

text \<open>
  The constructors. Each class hands its \<open>message\<close> argument up to \<open>Error\<close>
  (\<open>super(message)\<close>), which stores its conversion to a string; at run time the argument
  is whatever \<open>handleError\<close> passes, so the conversion can throw.
\<close>

definition new_error ::
  "error_kind \<Rightarrow> json \<Rightarrow> nat option \<Rightarrow> json option \<Rightarrow> js_exception + bond_error" where
  "new_error k m sc rd =
     (case js_to_string m of
        Inl exn \<Rightarrow> Inl exn
      | Inr s \<Rightarrow>
          Inr \<lparr>kind = k, message = s, statusCode = sc, responseData = rd, retryAfter = None\<rparr>)"

definition new_RateLimitError ::
  "json \<Rightarrow> jsnumber option \<Rightarrow> nat option \<Rightarrow> json option \<Rightarrow> js_exception + bond_error" where
  "new_RateLimitError m ra sc rd =
     (case js_to_string m of
        Inl exn \<Rightarrow> Inl exn
      | Inr s \<Rightarrow>
          Inr \<lparr>kind = RateLimitError, message = s, statusCode = sc, responseData = rd,
               retryAfter = ra\<rparr>)"

section \<open>What the transport reports (axios)\<close>

record axios_response =
  status :: nat
  statusText :: string
  data :: json
  headers :: "string \<rightharpoonup> string"

record axios_error =
  code :: "string option"
  error_message :: string
  response :: "axios_response option"

section \<open>handleError\<close>

text \<open>\<open>a || b\<close> on an optional string: \<open>undefined\<close> and the empty string are falsy.\<close>

definition string_or :: "string option \<Rightarrow> string \<Rightarrow> string" where
  "string_or a b = (case a of None \<Rightarrow> b | Some s \<Rightarrow> if s = [] then b else s)"

text \<open>
  \<open>handleError\<close> returns the error object, or throws what a constructor throws.
\<close>

definition handleError :: "axios_error \<Rightarrow> js_exception + bond_error" where
  "handleError error =
     (if code error = Some ''ECONNABORTED'' \<or> code error = Some ''ETIMEDOUT'' then
        new_error TimeoutError (JStr (''Request timed out: '' @ error_message error)) None None
      else if code error = Some ''ECONNREFUSED'' \<or> code error = Some ''ENOTFOUND'' then
        new_error NetworkError (JStr (''Network error: '' @ error_message error)) None None
      else case response error of
        None \<Rightarrow> new_error NetworkError (JStr (''Network error: '' @ error_message error)) None None
      | Some r \<Rightarrow>
          (let st = status r;
               msg = (case get_message (data r) of
                        None \<Rightarrow> JStr (''HTTP '' @ show_nat st)
                      | Some v \<Rightarrow> if truthy v then v else JStr (''HTTP '' @ show_nat st));
               responseData = data r
           in if st = 401 then new_error AuthenticationError msg (Some st) (Some responseData)
              else if st = 403 then new_error AuthorizationError msg (Some st) (Some responseData)
              else if st = 404 then new_error NotFoundError msg (Some st) (Some responseData)
              else if st = 422 then new_error ValidationError msg (Some st) (Some responseData)
              else if st = 429 then
                new_RateLimitError msg
                  (Some (js_times (parseInt (string_or (headers r ''retry-after'') ''0'')) (Num 1000)))
                  (Some st) (Some responseData)
              else if st \<ge> 500 then new_error ServerError msg (Some st) (Some responseData)
              else new_error BondMCPError msg (Some st) (Some responseData)))"

section \<open>The client: configuration, constructor, setApiKey, getConfig\<close>

text \<open>\<open>BondMCPClientConfig\<close>: every field is optional (\<open>None\<close> is a field left out).\<close>

record BondMCPClientConfig =
  opt_apiKey :: "string option"
  opt_baseUrl :: "string option"
  opt_timeout :: "jsnumber option"
  opt_maxRetries :: "jsnumber option"
  opt_retryDelay :: "jsnumber option"
  opt_userAgent :: "string option"

text \<open>
  \<open>Required<BondMCPClientConfig>\<close>, as the constructor fills it. Each number comes out of
  \<open>x || d\<close> with a non-zero default \<open>d\<close>, so it is never \<open>NaN\<close> and never \<open>0\<close>; it may be
  negative. The model covers integral values only: the constructor would also keep a
  fraction or \<open>Infinity\<close>, which \<open>jsnumber\<close> cannot express, and nothing below speaks for
  such a configuration.
\<close>

record client_config =
  apiKey :: string
  baseUrl :: string
  timeout :: int
  maxRetries :: int
  retryDelay :: int
  userAgent :: string

text \<open>\<open>a || d\<close> on an optional number: \<open>undefined\<close>, \<open>0\<close> and \<open>NaN\<close> are falsy.\<close>

definition number_or :: "jsnumber option \<Rightarrow> int \<Rightarrow> int" where
  "number_or a d = (case a of Some (Num n) \<Rightarrow> if n = 0 then d else n | _ \<Rightarrow> d)"

text \<open>
  The axios instance, as far as the client sets it up: the options given to \<open>axios.create\<close>
  and the header table \<open>defaults.headers.common\<close>.
\<close>

record axios_instance =
  baseURL :: string
  instance_timeout :: int
  create_headers :: "string \<rightharpoonup> string"
  common_headers :: "string \<rightharpoonup> string"

record client =
  config :: client_config
  axiosInstance :: axios_instance

text \<open>
  The constructor. \<open>axios_common\<close> is the table \<open>defaults.headers.common\<close> a fresh axios
  instance starts with. The spread \<open>...(apiKey && {Authorization: ...})\<close> adds the header
  only for a non-empty key.
\<close>

definition new_client :: "(string \<rightharpoonup> string) \<Rightarrow> BondMCPClientConfig \<Rightarrow> client" where
  "new_client axios_common cfg =
     (let c = \<lparr>apiKey = string_or (opt_apiKey cfg) [],
               baseUrl = string_or (opt_baseUrl cfg) ''https://api.bondmcp.com'',
               timeout = number_or (opt_timeout cfg) 30000,
               maxRetries = number_or (opt_maxRetries cfg) 3,
               retryDelay = number_or (opt_retryDelay cfg) 1000,
               userAgent = string_or (opt_userAgent cfg) ''bondmcp-js/2.1.0''\<rparr>;
          hs = [''Content-Type'' \<mapsto> ''application/json'',
                ''Accept'' \<mapsto> ''application/json'',
                ''User-Agent'' \<mapsto> userAgent c]
      in \<lparr>config = c,
          axiosInstance =
            \<lparr>baseURL = baseUrl c,
             instance_timeout = timeout c,
             create_headers =
               (if apiKey c \<noteq> [] then hs(''Authorization'' \<mapsto> ''Bearer '' @ apiKey c) else hs),
             common_headers = axios_common\<rparr>\<rparr>)"

definition setApiKey :: "client \<Rightarrow> string \<Rightarrow> client" where
  "setApiKey c k =
     c\<lparr>config := (config c)\<lparr>apiKey := k\<rparr>,
       axiosInstance := (axiosInstance c)
         \<lparr>common_headers := (common_headers (axiosInstance c))(''Authorization'' \<mapsto> ''Bearer '' @ k)\<rparr>\<rparr>"

definition getConfig :: "client \<Rightarrow> client_config" where
  "getConfig c = config c"

text \<open>
  The headers axios sends with a request of the instance: the table
  \<open>defaults.headers.common\<close>, overridden by the headers given to \<open>axios.create\<close>, overridden
  by the headers of the request itself. (This is the merge order of axios; the client sets
  no method-specific defaults.)
\<close>

definition request_headers :: "client \<Rightarrow> (string \<rightharpoonup> string) \<Rightarrow> (string \<rightharpoonup> string)" where
  "request_headers c hs =
     common_headers (axiosInstance c) ++ create_headers (axiosInstance c) ++ hs"

section \<open>makeRequest\<close>

text \<open>
  What an execution does to the outside: the transport call of attempt \<open>n\<close>, and a call of
  \<open>sleep\<close> with its argument in milliseconds.
\<close>

datatype event = Request nat | Sleep int

text \<open>
  How \<open>makeRequest\<close> ends: it returns the payload, throws an error object, throws the
  unassigned \<open>lastError\<close>, which is \<open>undefined\<close>, or lets through the \<open>TypeError\<close> that
  \<open>handleError\<close> throws inside the \<open>catch\<close> block.
\<close>

datatype 'a outcome = Returned 'a | Threw bond_error | ThrewUndefined | ThrewTypeError

definition after :: "event list \<Rightarrow> 'a outcome \<times> event list \<Rightarrow> 'a outcome \<times> event list" where
  "after evs r = (fst r, evs @ snd r)"

text \<open>
  The retry loop. Every attempt sends the same request, so the transport is the answer it
  gives to the call of attempt \<open>k\<close>: a payload, or the error axios rejects with. The loop
  carries the attempt counter and \<open>lastError\<close>, and yields the outcome with the events of
  the remaining iterations. \<open>lastError.retryAfter || this.config.retryDelay\<close> is
  \<open>number_or\<close>.
\<close>

function attempt_loop ::
  "client_config \<Rightarrow> (nat \<Rightarrow> axios_error + 'a) \<Rightarrow> nat \<Rightarrow> bond_error option \<Rightarrow> 'a outcome \<times> event list"
where
  "attempt_loop cfg transport attempt lastError =
     (if int attempt \<le> maxRetries cfg then
        (case transport attempt of
           Inr payload \<Rightarrow> (Returned payload, [Request attempt])
         | Inl error \<Rightarrow>
             (case handleError error of
                Inl TypeError \<Rightarrow> (ThrewTypeError, [Request attempt])
              | Inr e \<Rightarrow>
                  if kind e = RateLimitError \<and> int attempt < maxRetries cfg then
                    after [Request attempt, Sleep (number_or (retryAfter e) (retryDelay cfg))]
                      (attempt_loop cfg transport (Suc attempt) (Some e))
                  else if (kind e = NetworkError \<or> kind e = TimeoutError)
                          \<and> int attempt < maxRetries cfg then
                    after [Request attempt, Sleep (retryDelay cfg * 2 ^ attempt)]
                      (attempt_loop cfg transport (Suc attempt) (Some e))
                  else (Threw e, [Request attempt])))
      else (case lastError of None \<Rightarrow> (ThrewUndefined, []) | Some e \<Rightarrow> (Threw e, [])))"
  by pat_completeness auto
termination
  by (relation "measure (\<lambda>(cfg, transport, attempt, lastError). nat (maxRetries cfg + 1 - int attempt))") auto

declare attempt_loop.simps [simp del]

definition makeRequest :: "client \<Rightarrow> (nat \<Rightarrow> axios_error + 'a) \<Rightarrow> 'a outcome \<times> event list" where
  "makeRequest c transport = attempt_loop (config c) transport 0 None"

definition calls :: "event list \<Rightarrow> nat" where
  "calls evs = length (filter (\<lambda>ev. case ev of Request _ \<Rightarrow> True | Sleep _ \<Rightarrow> False) evs)"

definition requests :: "event list \<Rightarrow> nat list" where
  "requests evs = concat (map (\<lambda>ev. case ev of Request n \<Rightarrow> [n] | Sleep _ \<Rightarrow> []) evs)"

section \<open>The classification table of the specification\<close>

text \<open>
  The table as the specification words it, for a failure that carries an HTTP response:
  401 Authentication, 403 Authorization, 404 NotFound, 422 Validation, 429 RateLimit,
  500 and above Server, any other status Generic (the base class \<open>BondMCPError\<close>).
\<close>

definition classification_table :: "nat \<Rightarrow> error_kind" where
  "classification_table st =
     (if st = 401 then AuthenticationError
      else if st = 403 then AuthorizationError
      else if st = 404 then NotFoundError
      else if st = 422 then ValidationError
      else if st = 429 then RateLimitError
      else if 500 \<le> st then ServerError
      else BondMCPError)"

text \<open>
  An HTTP response failure: axios rejects with the response attached. The error then
  carries none of the four connection-level codes, which \<open>handleError\<close> tests first
  (axios puts \<open>ERR_BAD_REQUEST\<close> or \<open>ERR_BAD_RESPONSE\<close> on a rejected status).
\<close>

definition http_failure :: "axios_error \<Rightarrow> axios_response \<Rightarrow> bool" where
  "http_failure error r \<longleftrightarrow>
     response error = Some r \<and>
     code error \<notin> {Some ''ECONNABORTED'', Some ''ETIMEDOUT'', Some ''ECONNREFUSED'', Some ''ENOTFOUND''}"

section \<open>Concrete inputs\<close>

definition no_options :: BondMCPClientConfig where
  "no_options =
     \<lparr>opt_apiKey = None, opt_baseUrl = None, opt_timeout = None,
      opt_maxRetries = None, opt_retryDelay = None, opt_userAgent = None\<rparr>"

definition falsy_options :: BondMCPClientConfig where
  "falsy_options =
     \<lparr>opt_apiKey = Some [], opt_baseUrl = Some [], opt_timeout = Some (Num 0),
      opt_maxRetries = Some (Num 0), opt_retryDelay = Some (Num 0), opt_userAgent = Some []\<rparr>"

definition axios_common :: "string \<rightharpoonup> string" where
  "axios_common = [''Accept'' \<mapsto> ''application/json, text/plain, */*'']"

definition default_client :: client where
  "default_client = new_client axios_common no_options"

definition negative_retries_client :: client where
  "negative_retries_client = new_client axios_common (no_options\<lparr>opt_maxRetries := Some (Num (- 1))\<rparr>)"

definition keyed_client :: client where
  "keyed_client =
     new_client axios_common (no_options\<lparr>opt_apiKey := Some ''old'', opt_maxRetries := Some (Num 1)\<rparr>)"

definition http_error :: "nat \<Rightarrow> json \<Rightarrow> (string \<rightharpoonup> string) \<Rightarrow> axios_error" where
  "http_error st body hs =
     \<lparr>code = Some (if st < 500 then ''ERR_BAD_REQUEST'' else ''ERR_BAD_RESPONSE''),
      error_message = ''Request failed with status code '' @ show_nat st,
      response = Some \<lparr>status = st, statusText = [], data = body, headers = hs\<rparr>\<rparr>"

definition not_found :: axios_error where
  "not_found = http_error 404 (JObj [(''message'', JStr ''not found'')]) Map.empty"

definition not_found_elsewhere :: axios_error where
  "not_found_elsewhere =
     \<lparr>code = Some ''ERR_BAD_REQUEST'',
      error_message = ''Request failed with status code 404'',
      response = Some \<lparr>status = 404, statusText = ''Not Found'',
                        data = JObj [(''message'', JStr ''not found'')],
                        headers = [''server'' \<mapsto> ''nginx'', ''content-type'' \<mapsto> ''application/json'']\<rparr>\<rparr>"



definition not_found_object_message :: axios_error where
  "not_found_object_message =
     http_error 404 (JObj [(''message'', JObj [(''toString'', JNum 1)])]) Map.empty"


definition rate_limited_2s :: axios_error where
  "rate_limited_2s = http_error 429 (JStr []) [''retry-after'' \<mapsto> ''2'']"

definition rate_limited_no_header :: axios_error where
  "rate_limited_no_header = http_error 429 (JStr []) Map.empty"

definition rate_limited_http_date :: axios_error where
  "rate_limited_http_date =
     http_error 429 (JStr []) [''retry-after'' \<mapsto> ''Wed, 21 Oct 2015 07:28:00 GMT'']"

definition connection_refused :: axios_error where
  "connection_refused =
     \<lparr>code = Some ''ECONNREFUSED'', error_message = ''connect ECONNREFUSED 127.0.0.1:443'',
      response = None\<rparr>"

definition always :: "axios_error \<Rightarrow> nat \<Rightarrow> axios_error + json" where
  "always error k = Inl error"

definition refused_once :: "nat \<Rightarrow> axios_error + json" where
  "refused_once k = (if k = 0 then Inl connection_refused else Inr (JObj [(''status'', JStr ''ok'')]))"

definition refused_then_not_found :: "nat \<Rightarrow> axios_error + json" where
  "refused_then_not_found k = (if k = 0 then Inl connection_refused else Inl not_found_elsewhere)"

definition fails_four_times :: "axios_error \<Rightarrow> nat \<Rightarrow> axios_error + json" where
  "fails_four_times error k = (if k < 4 then Inl error else Inr JNull)"

section \<open>handleError on a response\<close>

text \<open>
  On an HTTP response failure \<open>handleError\<close> converts the message value and, when that
  succeeds, builds the error of the table's class with the status and the body.
\<close>

lemma handleError_http:
  assumes "http_failure error r"
  shows "handleError error =
     (case js_to_string
             (case get_message (data r) of
                None \<Rightarrow> JStr (''HTTP '' @ show_nat (status r))
              | Some v \<Rightarrow> if truthy v then v else JStr (''HTTP '' @ show_nat (status r))) of
        Inl exn \<Rightarrow> Inl exn
      | Inr s \<Rightarrow>
          Inr \<lparr>kind = classification_table (status r), message = s,
               statusCode = Some (status r), responseData = Some (data r),
               retryAfter =
                 (if status r = 429
                  then Some (js_times (parseInt (string_or (headers r ''retry-after'') ''0''))
                                      (Num 1000))
                  else None)\<rparr>)"
  using assms
  by (simp add: http_failure_def handleError_def Let_def new_error_def new_RateLimitError_def
      classification_table_def split: sum.splits)

lemma handleError_classification:
  assumes "http_failure error r" and "handleError error = Inr e"
  shows "kind e = classification_table (status r)
       \<and> statusCode e = Some (status r)
       \<and> responseData e = Some (data r)"
  using assms(2) unfolding handleError_http [OF assms(1)]
  by (auto split: sum.splits)

lemma handleError_no_response:
  assumes "response error = None"
  shows "\<exists>e. handleError error = Inr e
             \<and> (kind e = NetworkError \<or> kind e = TimeoutError)
             \<and> statusCode e = None \<and> responseData e = None"
  using assms by (simp add: handleError_def new_error_def)

lemma handleError_retryAfter:
  assumes "http_failure error r" and "status r = 429" and "handleError error = Inr e"
  shows "retryAfter e =
           Some (js_times (parseInt (case headers r ''retry-after'' of
                                       None \<Rightarrow> ''0'' | Some h \<Rightarrow> if h = [] then ''0'' else h))
                          (Num 1000))"
  using assms(3) unfolding handleError_http [OF assms(1)]
  by (auto simp add: assms(2) string_or_def split: sum.splits option.splits)

text \<open>
  \<open>handleError\<close> reads the code and the message of the axios error and, of the response,
  the status, the body and the \<open>retry-after\<close> header, and nothing else.
\<close>

lemma handleError_reads:
  assumes "code e1 = code e2" and "error_message e1 = error_message e2"
    and "map_option (\<lambda>r. (status r, data r, headers r ''retry-after'')) (response e1) =
         map_option (\<lambda>r. (status r, data r, headers r ''retry-after'')) (response e2)"
  shows "handleError e1 = handleError e2"
proof (cases "response e1")
  case None
  with assms(3) have "response e2 = None" by simp
  with None assms(1,2) show ?thesis by (simp add: handleError_def)
next
  case (Some r1)
  with assms(3) obtain r2 where r2: "response e2 = Some r2" by (cases "response e2") auto
  with Some assms(3) have "status r1 = status r2" "data r1 = data r2"
    "headers r1 ''retry-after'' = headers r2 ''retry-after''" by simp_all
  with Some r2 assms(1,2) show ?thesis by (simp add: handleError_def Let_def)
qed

lemma handleError_examples:
  "handleError connection_refused =
     Inr \<lparr>kind = NetworkError,
          message = ''Network error: connect ECONNREFUSED 127.0.0.1:443'',
          statusCode = None, responseData = None, retryAfter = None\<rparr>"
  "handleError not_found =
     Inr \<lparr>kind = NotFoundError, message = ''not found'', statusCode = Some 404,
          responseData = Some (JObj [(''message'', JStr ''not found'')]), retryAfter = None\<rparr>"
  "handleError rate_limited_2s =
     Inr \<lparr>kind = RateLimitError, message = ''HTTP 429'', statusCode = Some 429,
          responseData = Some (JStr []), retryAfter = Some (Num 2000)\<rparr>"
  "handleError rate_limited_no_header =
     Inr \<lparr>kind = RateLimitError, message = ''HTTP 429'', statusCode = Some 429,
          responseData = Some (JStr []), retryAfter = Some (Num 0)\<rparr>"
  by (simp_all add: connection_refused_def not_found_def rate_limited_2s_def
      rate_limited_no_header_def http_error_def handleError_def new_error_def
      new_RateLimitError_def Let_def show_nat.simps digit_char_def string_or_def parseInt_def
      is_white_space_def is_digit_def digit_value_def)

section \<open>The retry loop, one iteration at a time\<close>

lemma loop_exhausted:
  "\<not> int a \<le> maxRetries cfg \<Longrightarrow>
   attempt_loop cfg tr a le = (case le of None \<Rightarrow> (ThrewUndefined, []) | Some e \<Rightarrow> (Threw e, []))"
  by (subst attempt_loop.simps) simp

lemma loop_success:
  "int a \<le> maxRetries cfg \<Longrightarrow> tr a = Inr p \<Longrightarrow>
   attempt_loop cfg tr a le = (Returned p, [Request a])"
  by (subst attempt_loop.simps) simp

lemma loop_type_error:
  "int a \<le> maxRetries cfg \<Longrightarrow> tr a = Inl err \<Longrightarrow> handleError err = Inl exn \<Longrightarrow>
   attempt_loop cfg tr a le = (ThrewTypeError, [Request a])"
  by (subst attempt_loop.simps) (simp split: js_exception.splits)

lemma loop_rate_limited:
  "int a < maxRetries cfg \<Longrightarrow> tr a = Inl err \<Longrightarrow> handleError err = Inr e \<Longrightarrow>
   kind e = RateLimitError \<Longrightarrow>
   attempt_loop cfg tr a le =
     after [Request a, Sleep (number_or (retryAfter e) (retryDelay cfg))]
       (attempt_loop cfg tr (Suc a) (Some e))"
  by (subst attempt_loop.simps) simp

lemma loop_backoff:
  "int a < maxRetries cfg \<Longrightarrow> tr a = Inl err \<Longrightarrow> handleError err = Inr e \<Longrightarrow>
   kind e = NetworkError \<or> kind e = TimeoutError \<Longrightarrow>
   attempt_loop cfg tr a le =
     after [Request a, Sleep (retryDelay cfg * 2 ^ a)] (attempt_loop cfg tr (Suc a) (Some e))"
  by (subst attempt_loop.simps) auto

lemma loop_throw:
  "int a \<le> maxRetries cfg \<Longrightarrow> tr a = Inl err \<Longrightarrow> handleError err = Inr e \<Longrightarrow>
   \<not> int a < maxRetries cfg \<or> kind e \<notin> {RateLimitError, NetworkError, TimeoutError} \<Longrightarrow>
   attempt_loop cfg tr a le = (Threw e, [Request a])"
  by (subst attempt_loop.simps) auto

lemma loop_first_event:
  assumes "int a \<le> maxRetries cfg"
  shows "\<exists>rest. snd (attempt_loop cfg tr a le) = Request a # rest"
  using assms
  by (subst attempt_loop.simps)
     (auto simp add: after_def split: sum.splits js_exception.splits)

text \<open>
  A retried attempt: the call, the wait, and then the call of the next attempt.
\<close>

lemma loop_retry:
  assumes "int a < maxRetries cfg" "tr a = Inl err" "handleError err = Inr e"
    and "kind e \<in> {RateLimitError, NetworkError, TimeoutError}"
  shows "\<exists>rest. snd (attempt_loop cfg tr a le) =
           Request a
           # Sleep (if kind e = RateLimitError
                    then number_or (retryAfter e) (retryDelay cfg)
                    else retryDelay cfg * 2 ^ a)
           # Request (Suc a) # rest
         \<and> snd (attempt_loop cfg tr (Suc a) (Some e)) = Request (Suc a) # rest
         \<and> fst (attempt_loop cfg tr a le) = fst (attempt_loop cfg tr (Suc a) (Some e))"
proof -
  from assms(1) have "int (Suc a) \<le> maxRetries cfg" by simp
  then obtain rest where
    r: "snd (attempt_loop cfg tr (Suc a) (Some e)) = Request (Suc a) # rest"
    using loop_first_event by blast
  from assms(4) consider "kind e = RateLimitError"
    | "kind e = NetworkError \<or> kind e = TimeoutError" by auto
  then show ?thesis
  proof cases
    case 1
    then show ?thesis using loop_rate_limited [of a cfg tr err e le] assms(1,2,3) r
      by (simp add: after_def)
  next
    case 2
    then show ?thesis using loop_backoff [of a cfg tr err e le] assms(1,2,3) r
      by (auto simp add: after_def)
  qed
qed

lemma calls_requests: "calls evs = length (requests evs)"
proof (induction evs)
  case Nil
  show ?case by (simp add: calls_def requests_def)
next
  case (Cons ev evs)
  then show ?case by (cases ev) (simp_all add: calls_def requests_def)
qed

lemma requests_Request [simp]: "requests (Request n # evs) = n # requests evs"
  by (simp add: requests_def)

lemma requests_Sleep [simp]: "requests (Sleep ms # evs) = requests evs"
  by (simp add: requests_def)

lemma requests_Nil [simp]: "requests [] = []"
  by (simp add: requests_def)

section \<open>The log of an execution\<close>


text \<open>
  When every attempt from \<open>a\<close> on fails with a retried class, the loop calls the transport
  for each attempt up to \<open>maxRetries\<close> and throws the error of the last one.
\<close>

lemma loop_all_retryable:
  assumes "int a \<le> maxRetries cfg"
    and "\<forall>k. a \<le> k \<and> int k \<le> maxRetries cfg \<longrightarrow>
           (\<exists>err e. tr k = Inl err \<and> handleError err = Inr e
                    \<and> kind e \<in> {RateLimitError, NetworkError, TimeoutError})"
    and "tr (nat (maxRetries cfg)) = Inl final" and "handleError final = Inr final_error"
  shows "fst (attempt_loop cfg tr a le) = Threw final_error
       \<and> requests (snd (attempt_loop cfg tr a le)) = [a ..< nat (maxRetries cfg + 1)]"
  using assms
proof (induction "nat (maxRetries cfg - int a)" arbitrary: a le)
  case 0
  then have eq: "maxRetries cfg = int a" by simp
  then have fin: "tr a = Inl final" using "0.prems"(3) by simp
  have "attempt_loop cfg tr a le = (Threw final_error, [Request a])"
    using loop_throw [of a cfg tr final final_error le] fin eq "0.prems"(4) by simp
  moreover have "[a ..< nat (maxRetries cfg + 1)] = [a]" using eq
    by (simp add: nat_add_distrib upt_rec)
  ultimately show ?case by simp
next
  case (Suc m)
  then have lt: "int a < maxRetries cfg" by simp
  from Suc.prems(2) lt obtain err e where err: "tr a = Inl err" "handleError err = Inr e"
    and k: "kind e \<in> {RateLimitError, NetworkError, TimeoutError}"
    by (metis order_refl less_imp_le)
  obtain rest where
    L: "snd (attempt_loop cfg tr a le) =
          Request a
          # Sleep (if kind e = RateLimitError
                   then number_or (retryAfter e) (retryDelay cfg)
                   else retryDelay cfg * 2 ^ a)
          # Request (Suc a) # rest"
    and L': "snd (attempt_loop cfg tr (Suc a) (Some e)) = Request (Suc a) # rest"
    and F: "fst (attempt_loop cfg tr a le) = fst (attempt_loop cfg tr (Suc a) (Some e))"
    using loop_retry [of a cfg tr err e le] lt err k by blast
  have m: "m = nat (maxRetries cfg - int (Suc a))" using Suc.hyps(2) by simp
  have le': "int (Suc a) \<le> maxRetries cfg" using lt by simp
  have all': "\<forall>k. Suc a \<le> k \<and> int k \<le> maxRetries cfg \<longrightarrow>
                (\<exists>err e. tr k = Inl err \<and> handleError err = Inr e
                         \<and> kind e \<in> {RateLimitError, NetworkError, TimeoutError})"
    using Suc.prems(2) by auto
  note IH = Suc.hyps(1) [OF m le' all' Suc.prems(3,4), of "Some e"]
  have "[a ..< nat (maxRetries cfg + 1)] = a # [Suc a ..< nat (maxRetries cfg + 1)]"
    using lt by (simp add: upt_rec)
  with IH F L L' show ?case by simp
qed

text \<open>
  An error the loop throws is the one \<open>handleError\<close> made of the failure of the last call
  in the log; only with no call at all it is the \<open>lastError\<close> the loop was entered with.
\<close>

lemma loop_thrown_error:
  assumes "attempt_loop cfg tr a le = (Threw e, log)"
  shows "(log = [] \<and> le = Some e)
       \<or> (log \<noteq> [] \<and> (\<exists>n err. last log = Request n \<and> tr n = Inl err \<and> handleError err = Inr e))"
  using assms
proof (induction "nat (maxRetries cfg + 1 - int a)" arbitrary: a le log)
  case 0
  then have "\<not> int a \<le> maxRetries cfg" by simp
  with "0.prems" show ?case by (auto simp add: loop_exhausted split: option.splits)
next
  case (Suc m)
  then have le_a: "int a \<le> maxRetries cfg" by simp
  have m: "m = nat (maxRetries cfg + 1 - int (Suc a))" using Suc.hyps(2) by simp
  show ?case
  proof (cases "tr a")
    case (Inr p)
    with le_a Suc.prems show ?thesis by (simp add: loop_success)
  next
    case (Inl ea)
    show ?thesis
    proof (cases "handleError ea")
      case (Inl exn)
      with le_a \<open>tr a = Inl ea\<close> Suc.prems show ?thesis by (simp add: loop_type_error)
    next
      case (Inr e')
      show ?thesis
      proof (cases "int a < maxRetries cfg
                    \<and> kind e' \<in> {RateLimitError, NetworkError, TimeoutError}")
        case False
        then have "attempt_loop cfg tr a le = (Threw e', [Request a])"
          using le_a \<open>tr a = Inl ea\<close> Inr loop_throw [of a cfg tr ea e' le] by auto
        with Suc.prems \<open>tr a = Inl ea\<close> Inr show ?thesis by auto
      next
        case True
        then obtain rest where
          L: "snd (attempt_loop cfg tr a le) =
                Request a
                # Sleep (if kind e' = RateLimitError
                         then number_or (retryAfter e') (retryDelay cfg)
                         else retryDelay cfg * 2 ^ a)
                # Request (Suc a) # rest"
          and L': "snd (attempt_loop cfg tr (Suc a) (Some e')) = Request (Suc a) # rest"
          and F: "fst (attempt_loop cfg tr a le) = fst (attempt_loop cfg tr (Suc a) (Some e'))"
          using loop_retry [of a cfg tr ea e' le] \<open>tr a = Inl ea\<close> Inr by blast
        from Suc.prems F L' have next_run:
          "attempt_loop cfg tr (Suc a) (Some e') = (Threw e, Request (Suc a) # rest)"
          by (metis fst_conv prod.collapse)
        from Suc.hyps(1) [OF m next_run] have
          "\<exists>n err. last (Request (Suc a) # rest) = Request n \<and> tr n = Inl err
                   \<and> handleError err = Inr e" by simp
        moreover from Suc.prems L have "log = Request a # Sleep (if kind e' = RateLimitError
                         then number_or (retryAfter e') (retryDelay cfg)
                         else retryDelay cfg * 2 ^ a) # Request (Suc a) # rest" by simp
        ultimately show ?thesis by simp
      qed
    qed
  qed
qed

text \<open>The loop reads the transport only at the attempts it makes.\<close>

lemma loop_cong:
  assumes "\<forall>k. int k \<le> maxRetries cfg \<longrightarrow> tr1 k = tr2 k"
  shows "attempt_loop cfg tr1 a le = attempt_loop cfg tr2 a le"
  using assms
proof (induction "nat (maxRetries cfg + 1 - int a)" arbitrary: a le)
  case 0
  then have "\<not> int a \<le> maxRetries cfg" by simp
  then show ?case by (simp add: loop_exhausted)
next
  case (Suc m)
  then have le_a: "int a \<le> maxRetries cfg" by simp
  with Suc.prems have same: "tr1 a = tr2 a" by simp
  have m: "m = nat (maxRetries cfg + 1 - int (Suc a))" using Suc.hyps(2) by simp
  note IH = Suc.hyps(1) [OF m Suc.prems]
  show ?case
    by (subst attempt_loop.simps [of cfg tr1], subst attempt_loop.simps [of cfg tr2])
       (simp add: same IH split: sum.splits js_exception.splits)
qed




lemma run_refused_once:
  "makeRequest default_client refused_once =
     (Returned (JObj [(''status'', JStr ''ok'')]), [Request 0, Sleep 1000, Request 1])"
  by code_simp

lemma default_client_config:
  "config default_client =
     \<lparr>apiKey = [], baseUrl = ''https://api.bondmcp.com'', timeout = 30000, maxRetries = 3,
      retryDelay = 1000, userAgent = ''bondmcp-js/2.1.0''\<rparr>"
  by (simp add: default_client_def new_client_def no_options_def string_or_def number_or_def)

lemma keyed_client_config:
  "config keyed_client =
     \<lparr>apiKey = ''old'', baseUrl = ''https://api.bondmcp.com'', timeout = 30000, maxRetries = 1,
      retryDelay = 1000, userAgent = ''bondmcp-js/2.1.0''\<rparr>"
  by (simp add: keyed_client_def new_client_def no_options_def string_or_def number_or_def Let_def)

section \<open>Error classification\<close>

text \<open>
  C1. For every HTTP response failure, the error mapping is to produce the variant of the
  classification table, with the status code and the body of the response. Whenever
  \<open>handleError\<close> returns an error it is that one (\<open>handleError_classification\<close>), but it
  does not always return: for a 404 whose body is \<open>{"message": {"toString": 1}}\<close> the
  message value is an object that cannot be converted to a string, the constructor of
  \<open>NotFoundError\<close> throws a \<open>TypeError\<close>, and \<open>makeRequest\<close> ends with that \<open>TypeError\<close>
  after one call instead of a \<open>NotFoundError\<close>.
\<close>

theorem handleError_throws_TypeError:
  "http_failure not_found_object_message
     \<lparr>status = 404, statusText = [],
      data = JObj [(''message'', JObj [(''toString'', JNum 1)])], headers = Map.empty\<rparr>
   \<and> classification_table 404 = NotFoundError
   \<and> handleError not_found_object_message = Inl TypeError
   \<and> makeRequest default_client (always not_found_object_message) =
       (ThrewTypeError, [Request 0])"
proof -
  have h: "handleError not_found_object_message = Inl TypeError"
    by (simp add: not_found_object_message_def http_error_def handleError_def new_error_def
        Let_def)
  have "makeRequest default_client (always not_found_object_message) =
               (ThrewTypeError, [Request 0])"
    using loop_type_error [of 0 "config default_client" "always not_found_object_message"
        not_found_object_message TypeError None] h
    by (simp add: makeRequest_def always_def default_client_config)
  with h show ?thesis
    by (simp add: http_failure_def not_found_object_message_def http_error_def
        classification_table_def)
qed




text \<open>
  C3. For a 429 response the \<open>retryAfter\<close> of the error is \<open>parseInt\<close> of the
  \<open>Retry-After\<close> header times 1000, and \<open>0\<close> when the header is absent. When the header
  is present and does not start with a number (an HTTP date, which the header may hold),
  \<open>retryAfter\<close> is \<open>NaN\<close>, not \<open>0\<close>.
\<close>

theorem retryAfter_of_http_date_is_NaN:
  "handleError rate_limited_http_date =
     Inr \<lparr>kind = RateLimitError, message = ''HTTP 429'', statusCode = Some 429,
          responseData = Some (JStr []), retryAfter = Some NaN\<rparr>
   \<and> Some NaN \<noteq> Some (Num 0)"
  by (simp add: rate_limited_http_date_def http_error_def handleError_def new_RateLimitError_def
      Let_def show_nat.simps digit_char_def string_or_def parseInt_def is_white_space_def
      is_digit_def digit_value_def)

section \<open>The retry policy\<close>

text \<open>
  C2. When every attempt fails with a retryable error, the executor is to make
  \<open>maxRetries + 1\<close> calls and then throw the error of the last attempt. For an integral
  \<open>maxRetries \<ge> 0\<close> it does (\<open>makeRequest_exhausts_retries\<close>). For \<open>maxRetries = -1\<close>, which
  the constructor keeps (\<open>-1 || 3\<close> is \<open>-1\<close>), the loop body never runs: against a transport
  that answers every call with a 429 no call is made, and \<open>throw lastError!\<close> throws the
  unassigned \<open>lastError\<close>, which is \<open>undefined\<close> and no error object.
\<close>

theorem negative_maxRetries_throws_undefined:
  "maxRetries (config negative_retries_client) = - 1
   \<and> always rate_limited_2s 0 = Inl rate_limited_2s
   \<and> makeRequest negative_retries_client (always rate_limited_2s) = (ThrewUndefined, [])"
proof -
  have c: "maxRetries (config negative_retries_client) = - 1"
    by (simp add: negative_retries_client_def new_client_def no_options_def number_or_def Let_def)
  have r: "makeRequest negative_retries_client (always rate_limited_2s) = (ThrewUndefined, [])"
    by (simp add: makeRequest_def loop_exhausted c)
  from c r show ?thesis by (simp add: always_def)
qed

lemma makeRequest_exhausts_retries:
  assumes "0 \<le> maxRetries (config c)"
    and "\<forall>k. int k \<le> maxRetries (config c) \<longrightarrow>
           (\<exists>err e. transport k = Inl err \<and> handleError err = Inr e
                    \<and> kind e \<in> {RateLimitError, NetworkError, TimeoutError})"
    and "transport (nat (maxRetries (config c))) = Inl final"
    and "handleError final = Inr final_error"
  shows "fst (makeRequest c transport) = Threw final_error
       \<and> requests (snd (makeRequest c transport)) = [0 ..< nat (maxRetries (config c) + 1)]
       \<and> int (calls (snd (makeRequest c transport))) = maxRetries (config c) + 1"
proof -
  have "int 0 \<le> maxRetries (config c)" using assms(1) by simp
  moreover have "\<forall>k. 0 \<le> k \<and> int k \<le> maxRetries (config c) \<longrightarrow>
           (\<exists>err e. transport k = Inl err \<and> handleError err = Inr e
                    \<and> kind e \<in> {RateLimitError, NetworkError, TimeoutError})"
    using assms(2) by simp
  ultimately have
    "fst (attempt_loop (config c) transport 0 None) = Threw final_error
     \<and> requests (snd (attempt_loop (config c) transport 0 None)) =
         [0 ..< nat (maxRetries (config c) + 1)]"
    using assms(3,4) by (rule loop_all_retryable)
  then show ?thesis using assms(1) by (simp add: makeRequest_def calls_requests)
qed



text \<open>
  C5. For every execution whose first transport call fails with an error that maps to a
  variant that is not retried (Authentication, Authorization, NotFound, Validation, Server
  or Generic), the executor throws that error after exactly one transport call and without
  any wait. (An execution has a first call when \<open>maxRetries \<ge> 0\<close>.)
\<close>

theorem non_retryable_propagates:
  assumes "0 \<le> maxRetries (config c)"
    and "transport 0 = Inl err"
    and "handleError err = Inr e"
    and "kind e \<in>
           {AuthenticationError, AuthorizationError, NotFoundError, ValidationError,
            ServerError, BondMCPError}"
  shows "makeRequest c transport = (Threw e, [Request 0])"
proof -
  from assms(4) have "kind e \<notin> {RateLimitError, NetworkError, TimeoutError}"
    by auto
  with assms(1,2,3) show ?thesis
    using loop_throw [of 0 "config c" transport err e None] by (simp add: makeRequest_def)
qed

theorem non_retryable_propagates_witness:
  "0 \<le> maxRetries (config default_client)
   \<and> always not_found 0 = Inl not_found
   \<and> makeRequest default_client (always not_found) =
       (Threw \<lparr>kind = NotFoundError, message = ''not found'', statusCode = Some 404,
               responseData = Some (JObj [(''message'', JStr ''not found'')]),
               retryAfter = None\<rparr>,
        [Request 0])"
proof -
  let ?e = "\<lparr>kind = NotFoundError, message = ''not found'', statusCode = Some 404,
             responseData = Some (JObj [(''message'', JStr ''not found'')]),
             retryAfter = None\<rparr>"
  have h1: "0 \<le> maxRetries (config default_client)" by (simp add: default_client_config)
  have h2: "always not_found 0 = Inl not_found" by (simp add: always_def)
  have h3: "handleError not_found = Inr ?e" by (rule handleError_examples)
  have h4: "kind ?e \<in>
           {AuthenticationError, AuthorizationError, NotFoundError, ValidationError,
            ServerError, BondMCPError}" by simp
  from non_retryable_propagates [of default_client "always not_found" not_found ?e] h1 h2 h3 h4
  show ?thesis by simp
qed



section \<open>Determinism\<close>

text \<open>
  C9. Classification is deterministic, a function of the response or failure signal
  alone: whenever two executions throw an error, by whatever clients, against whatever
  transports and after whatever earlier attempts, and the failure signals of their last
  calls agree in what a signal carries for classification (the code and message of the
  axios error and, of the response, the status, the body and the \<open>retry-after\<close> header),
  the two errors are the same: same variant, message, status code, response body and
  retry-after value. In particular two executions that meet the identical signal throw
  the identical error.
\<close>

theorem thrown_error_determined_by_signal:
  assumes "makeRequest c1 transport1 = (Threw e1, log1)"
    and "makeRequest c2 transport2 = (Threw e2, log2)"
    and "last log1 = Request n1" and "last log2 = Request n2"
    and "transport1 n1 = Inl err1" and "transport2 n2 = Inl err2"
    and "code err1 = code err2" and "error_message err1 = error_message err2"
    and "map_option (\<lambda>r. (status r, data r, headers r ''retry-after'')) (response err1) =
         map_option (\<lambda>r. (status r, data r, headers r ''retry-after'')) (response err2)"
  shows "e1 = e2 \<and> kind e1 = kind e2 \<and> message e1 = message e2
       \<and> statusCode e1 = statusCode e2 \<and> retryAfter e1 = retryAfter e2"
proof -
  from loop_thrown_error [of "config c1" transport1 0 None e1 log1] assms(1)
  obtain m1 x1 where "last log1 = Request m1" "transport1 m1 = Inl x1" "handleError x1 = Inr e1"
    by (auto simp add: makeRequest_def)
  with assms(3,5) have 1: "handleError err1 = Inr e1" by simp
  from loop_thrown_error [of "config c2" transport2 0 None e2 log2] assms(2)
  obtain m2 x2 where "last log2 = Request m2" "transport2 m2 = Inl x2" "handleError x2 = Inr e2"
    by (auto simp add: makeRequest_def)
  with assms(4,6) have 2: "handleError err2 = Inr e2" by simp
  from handleError_reads [OF assms(7,8,9)] 1 2 show ?thesis by simp
qed

theorem thrown_error_determined_by_signal_witness:
  "makeRequest default_client (always not_found) =
     (Threw \<lparr>kind = NotFoundError, message = ''not found'', statusCode = Some 404,
             responseData = Some (JObj [(''message'', JStr ''not found'')]),
             retryAfter = None\<rparr>,
      [Request 0])
   \<and> makeRequest keyed_client refused_then_not_found =
     (Threw \<lparr>kind = NotFoundError, message = ''not found'', statusCode = Some 404,
             responseData = Some (JObj [(''message'', JStr ''not found'')]),
             retryAfter = None\<rparr>,
      [Request 0, Sleep 1000, Request 1])
   \<and> always not_found 0 = Inl not_found
   \<and> refused_then_not_found 1 = Inl not_found_elsewhere
   \<and> not_found \<noteq> not_found_elsewhere
   \<and> config default_client \<noteq> config keyed_client
   \<and> fst (makeRequest default_client (always not_found)) =
       fst (makeRequest keyed_client refused_then_not_found)"
proof -
  let ?e = "\<lparr>kind = NotFoundError, message = ''not found'', statusCode = Some 404,
             responseData = Some (JObj [(''message'', JStr ''not found'')]),
             retryAfter = None\<rparr>"
  obtain e1 log1 where r1: "makeRequest default_client (always not_found) = (Threw e1, log1)"
    and v1: "e1 = ?e" "log1 = [Request 0]"
    by (simp add: makeRequest_def default_client_config always_def handleError_examples
        loop_throw [of 0 _ _ not_found ?e])
  have r2': "makeRequest keyed_client refused_then_not_found =
               (Threw ?e, [Request 0, Sleep 1000, Request 1])"
    by code_simp
  then obtain e2 log2 where r2: "makeRequest keyed_client refused_then_not_found = (Threw e2, log2)"
    and v2: "log2 = [Request 0, Sleep 1000, Request 1]" by simp
  have l1: "last log1 = Request 0" using v1 by simp
  have l2: "last log2 = Request 1" using v2 by simp
  have t1: "always not_found 0 = Inl not_found" by (simp add: always_def)
  have t2: "refused_then_not_found 1 = Inl not_found_elsewhere"
    by (simp add: refused_then_not_found_def)
  have a: "code not_found = code not_found_elsewhere"
    "error_message not_found = error_message not_found_elsewhere"
    "map_option (\<lambda>r. (status r, data r, headers r ''retry-after'')) (response not_found) =
     map_option (\<lambda>r. (status r, data r, headers r ''retry-after'')) (response not_found_elsewhere)"
    by (simp_all add: not_found_def not_found_elsewhere_def http_error_def show_nat.simps
        digit_char_def)
  have d: "not_found \<noteq> not_found_elsewhere"
    by (simp add: not_found_def not_found_elsewhere_def http_error_def)
  have c: "config default_client \<noteq> config keyed_client"
    by (simp add: default_client_config keyed_client_config)
  from thrown_error_determined_by_signal
    [of default_client "always not_found" e1 log1 keyed_client refused_then_not_found e2 log2
        0 1 not_found not_found_elsewhere]
    r1 r2 l1 l2 t1 t2 a
  have "e1 = e2" by simp
  with r1 r2 r2' v1 v2 t1 t2 d c show ?thesis by simp
qed

section \<open>The client facade\<close>

text \<open>
  What \<open>setApiKey\<close> writes: the \<open>apiKey\<close> of the configuration and the \<open>Authorization\<close>
  entry of \<open>defaults.headers.common\<close>, and nothing else.
\<close>

lemma setApiKey_frame:
  "apiKey (config (setApiKey c t)) = t
   \<and> common_headers (axiosInstance (setApiKey c t)) ''Authorization'' = Some (''Bearer '' @ t)
   \<and> baseUrl (config (setApiKey c t)) = baseUrl (config c)
   \<and> timeout (config (setApiKey c t)) = timeout (config c)
   \<and> maxRetries (config (setApiKey c t)) = maxRetries (config c)
   \<and> retryDelay (config (setApiKey c t)) = retryDelay (config c)
   \<and> userAgent (config (setApiKey c t)) = userAgent (config c)
   \<and> getConfig (setApiKey c t) = (getConfig c)\<lparr>apiKey := t\<rparr>
   \<and> common_headers (axiosInstance (setApiKey c t)) |` (- {''Authorization''}) =
       common_headers (axiosInstance c) |` (- {''Authorization''})
   \<and> create_headers (axiosInstance (setApiKey c t)) = create_headers (axiosInstance c)
   \<and> baseURL (axiosInstance (setApiKey c t)) = baseURL (axiosInstance c)
   \<and> instance_timeout (axiosInstance (setApiKey c t)) = instance_timeout (axiosInstance c)"
  by (simp add: setApiKey_def getConfig_def)

text \<open>
  For a client constructed without a key, requests that set no \<open>Authorization\<close> header of
  their own carry the new token.
\<close>

lemma setApiKey_reaches_requests:
  assumes "create_headers (axiosInstance c) ''Authorization'' = None"
    and "hs ''Authorization'' = None"
  shows "request_headers (setApiKey c t) hs ''Authorization'' = Some (''Bearer '' @ t)"
  using assms by (simp add: request_headers_def setApiKey_def map_add_def)

text \<open>
  C8. \<open>setApiKey t\<close> is to put \<open>t\<close> into the configuration and into the \<open>Authorization\<close>
  header that subsequent requests use, leaving every other configuration field as it was.
  The configuration is updated as claimed (\<open>setApiKey_frame\<close>), but for a client that was
  constructed with a key the requests do not follow: the constructor gave
  \<open>Authorization: Bearer old\<close> to \<open>axios.create\<close>, \<open>setApiKey\<close> writes only
  \<open>defaults.headers.common\<close>, and the header given at creation overrides that table, so
  after \<open>setApiKey new\<close> a request still carries \<open>Bearer old\<close>.
\<close>

theorem setApiKey_after_constructor_key:
  "apiKey (getConfig keyed_client) = ''old''
   \<and> apiKey (getConfig (setApiKey keyed_client ''new'')) = ''new''
   \<and> common_headers (axiosInstance (setApiKey keyed_client ''new'')) ''Authorization'' =
       Some ''Bearer new''
   \<and> create_headers (axiosInstance (setApiKey keyed_client ''new'')) ''Authorization'' =
       Some ''Bearer old''
   \<and> request_headers (setApiKey keyed_client ''new'') Map.empty ''Authorization'' =
       Some ''Bearer old''"
  by (simp add: request_headers_def setApiKey_def getConfig_def keyed_client_def new_client_def
      no_options_def string_or_def number_or_def Let_def map_add_def)

text \<open>
  C10. When a numeric field of the constructor's argument (timeout, maxRetries,
  retryDelay) is \<open>0\<close>, or a string field (apiKey, baseUrl, userAgent) is the empty string,
  the configuration of the constructed client holds the default of that field, not the
  value supplied: timeout 30000, maxRetries 3, retryDelay 1000, the production base
  address, the library's identification string, and the empty key.
\<close>

theorem constructor_falsy_defaults:
  "(opt_timeout cfg = Some (Num 0) \<longrightarrow> timeout (getConfig (new_client ax cfg)) = 30000)
   \<and> (opt_maxRetries cfg = Some (Num 0) \<longrightarrow> maxRetries (getConfig (new_client ax cfg)) = 3)
   \<and> (opt_retryDelay cfg = Some (Num 0) \<longrightarrow> retryDelay (getConfig (new_client ax cfg)) = 1000)
   \<and> (opt_apiKey cfg = Some [] \<longrightarrow> apiKey (getConfig (new_client ax cfg)) = [])
   \<and> (opt_baseUrl cfg = Some [] \<longrightarrow>
         baseUrl (getConfig (new_client ax cfg)) = ''https://api.bondmcp.com'')
   \<and> (opt_userAgent cfg = Some [] \<longrightarrow>
         userAgent (getConfig (new_client ax cfg)) = ''bondmcp-js/2.1.0'')"
  by (simp add: new_client_def getConfig_def Let_def number_or_def string_or_def)

theorem constructor_falsy_defaults_witness:
  "opt_timeout falsy_options = Some (Num 0)
   \<and> opt_maxRetries falsy_options = Some (Num 0)
   \<and> opt_retryDelay falsy_options = Some (Num 0)
   \<and> opt_apiKey falsy_options = Some []
   \<and> opt_baseUrl falsy_options = Some []
   \<and> opt_userAgent falsy_options = Some []
   \<and> timeout (getConfig (new_client axios_common falsy_options)) = 30000
   \<and> maxRetries (getConfig (new_client axios_common falsy_options)) = 3
   \<and> retryDelay (getConfig (new_client axios_common falsy_options)) = 1000
   \<and> apiKey (getConfig (new_client axios_common falsy_options)) = []
   \<and> baseUrl (getConfig (new_client axios_common falsy_options)) = ''https://api.bondmcp.com''
   \<and> userAgent (getConfig (new_client axios_common falsy_options)) = ''bondmcp-js/2.1.0''"
proof -
  have h: "opt_timeout falsy_options = Some (Num 0)" "opt_maxRetries falsy_options = Some (Num 0)"
    "opt_retryDelay falsy_options = Some (Num 0)" "opt_apiKey falsy_options = Some []"
    "opt_baseUrl falsy_options = Some []" "opt_userAgent falsy_options = Some []"
    by (simp_all add: falsy_options_def)
  from constructor_falsy_defaults [of falsy_options axios_common] h show ?thesis by simp
qed

end
